theory Spec2Isabelle
  imports Complex_Main "HOL-Library.AList" "HOL-Library.Sublist"
begin

section \<open>Cost monitor (src/src/cost_monitor.py)\<close>

text \<open>
  Python floats are modelled as exact reals: the model keeps every comparison and every
  branch of the source and abstracts from binary rounding. Python integers are \<open>int\<close>.
\<close>

datatype AlertSeverity = INFO | WARNING | CRITICAL | EMERGENCY

record CostThresholds =
  hourly_limit :: real
  daily_limit :: real
  monthly_limit :: real
  query_cost_warning :: real
  query_cost_limit :: real
  bytes_per_query_limit :: int
  queries_per_hour_limit :: int
  queries_per_day_limit :: int

text \<open>The defaults of the dataclass, which \<open>CostMonitor.__init__\<close> instantiates.\<close>

definition CostThresholds_default :: CostThresholds where
  "CostThresholds_default =
     \<lparr> hourly_limit = 25 / 100, daily_limit = 5, monthly_limit = 150,
       query_cost_warning = 10 / 100, query_cost_limit = 1,
       bytes_per_query_limit = 100000000,
       queries_per_hour_limit = 100, queries_per_day_limit = 1000 \<rparr>"

text \<open>
  The fields of \<open>CostMonitor\<close> that its methods read or write. (\<open>bq\<close>, \<open>cost_cache\<close> and
  \<open>cache_ttl\<close> are assigned in \<open>__init__\<close> and used by none of the methods modelled here.)
\<close>

record CostMonitor =
  thresholds :: CostThresholds
  current_hour_queries :: int
  current_day_queries :: int
  current_day_cost :: real
  current_month_cost :: real
  emergency_stop :: bool

definition CostMonitor_init :: CostMonitor where
  "CostMonitor_init =
     \<lparr> thresholds = CostThresholds_default,
       current_hour_queries = 0, current_day_queries = 0,
       current_day_cost = 0, current_month_cost = 0,
       emergency_stop = False \<rparr>"

text \<open>
  The dictionary that \<open>check_query_cost\<close> returns. \<open>reason\<close> and \<open>warning\<close> are formatted
  messages in the source; the model keeps the numbers they are formatted from.
\<close>

datatype reject_reason =
    CostExceedsLimit real real
  | SizeExceedsLimit int
  | WouldExceedDailyBudget real real real

record check_result =
  approved :: bool
  reason :: "reject_reason option"
  warning :: "real option"
  estimated_cost :: "real option"
  severity :: AlertSeverity

text \<open>\<open>(bytes_to_process / 1_000_000_000_000) * 5.00\<close>: five dollars per terabyte.\<close>

definition estimate_cost :: "int \<Rightarrow> real" where
  "estimate_cost bytes_to_process = (real_of_int bytes_to_process / 1000000000000) * 5"

definition check_query_cost :: "CostMonitor \<Rightarrow> int \<Rightarrow> check_result" where
  "check_query_cost self bytes_to_process =
     (let cost = estimate_cost bytes_to_process; th = thresholds self in
      if cost > query_cost_limit th then
        \<lparr> approved = False, reason = Some (CostExceedsLimit cost (query_cost_limit th)),
          warning = None, estimated_cost = None, severity = CRITICAL \<rparr>
      else if bytes_to_process > bytes_per_query_limit th then
        \<lparr> approved = False, reason = Some (SizeExceedsLimit bytes_to_process),
          warning = None, estimated_cost = None, severity = CRITICAL \<rparr>
      else if current_day_cost self + cost > daily_limit th then
        \<lparr> approved = False,
          reason = Some (WouldExceedDailyBudget (current_day_cost self) cost (daily_limit th)),
          warning = None, estimated_cost = None, severity = CRITICAL \<rparr>
      else if cost > query_cost_warning th then
        \<lparr> approved = True, reason = None, warning = Some cost,
          estimated_cost = None, severity = WARNING \<rparr>
      else
        \<lparr> approved = True, reason = None, warning = None,
          estimated_cost = Some cost, severity = INFO \<rparr>)"

text \<open>
  \<open>_check_limits\<close> collects alerts and hands each to \<open>_send_alert\<close>, which prints it.
  The model returns the alerts (type and severity, in the order they are appended) with
  the new state.
\<close>

datatype alert_type =
  hourly_query_limit | daily_query_limit | daily_cost_limit | monthly_cost_limit

type_synonym alert = "alert_type \<times> AlertSeverity"

definition check_limits :: "CostMonitor \<Rightarrow> CostMonitor \<times> alert list" where
  "check_limits self =
     (let th = thresholds self;
          a1 = (if current_hour_queries self > queries_per_hour_limit th
                then [(hourly_query_limit, WARNING)] else []);
          hit2 = (current_day_queries self > queries_per_day_limit th);
          a2 = (if hit2 then [(daily_query_limit, CRITICAL)] else []);
          hit3 = (current_day_cost self > daily_limit th);
          a3 = (if hit3 then [(daily_cost_limit, EMERGENCY)] else []);
          hit4 = (current_month_cost self > monthly_limit th);
          a4 = (if hit4 then [(monthly_cost_limit, EMERGENCY)] else [])
      in (self\<lparr>emergency_stop := (hit2 \<or> hit3 \<or> hit4 \<or> emergency_stop self)\<rparr>,
          a1 @ a2 @ a3 @ a4))"

definition update_usage :: "int \<Rightarrow> real \<Rightarrow> CostMonitor \<Rightarrow> CostMonitor \<times> alert list" where
  "update_usage bytes_processed cost self =
     check_limits
       (self\<lparr> current_hour_queries := current_hour_queries self + 1,
              current_day_queries := current_day_queries self + 1,
              current_day_cost := current_day_cost self + cost,
              current_month_cost := current_month_cost self + cost \<rparr>)"

definition reset_hourly_counters :: "CostMonitor \<Rightarrow> CostMonitor" where
  "reset_hourly_counters self = self\<lparr>current_hour_queries := 0\<rparr>"

definition reset_daily_counters :: "CostMonitor \<Rightarrow> CostMonitor" where
  "reset_daily_counters self =
     self\<lparr>current_day_queries := 0, current_day_cost := 0, emergency_stop := False\<rparr>"

definition reset_monthly_counters :: "CostMonitor \<Rightarrow> CostMonitor" where
  "reset_monthly_counters self = self\<lparr>current_month_cost := 0\<rparr>"

section \<open>Query text (Python \<open>str\<close> operations used by the rewriter)\<close>

text \<open>
  Query text is a list of characters. The keywords the rewriter looks for are ASCII, and
  on ASCII text \<open>str.upper\<close> maps \<open>a\<close>..\<open>z\<close> to \<open>A\<close>..\<open>Z\<close> and leaves every other character:
  that is \<open>upper\<close>. \<open>contains p s\<close> is \<open>p in s\<close>; \<open>replace old new s\<close> is
  \<open>s.replace(old, new)\<close>, which replaces the non-overlapping occurrences from the left
  (and, for an empty \<open>old\<close>, inserts \<open>new\<close> around every character); \<open>str_nat\<close> is
  \<open>str\<close> of a non-negative integer; \<open>join\<close> is \<open>sep.join\<close>.
\<close>

definition upper_char :: "char \<Rightarrow> char" where
  "upper_char c =
     (if 97 \<le> (of_char c :: nat) \<and> (of_char c :: nat) \<le> 122
      then char_of ((of_char c :: nat) - 32) else c)"

definition upper :: "string \<Rightarrow> string" where
  "upper s = map upper_char s"

fun contains :: "string \<Rightarrow> string \<Rightarrow> bool" where
  "contains p [] = (p = [])"
| "contains p (c # cs) = (prefix p (c # cs) \<or> contains p cs)"

fun replace :: "string \<Rightarrow> string \<Rightarrow> string \<Rightarrow> string" where
  "replace old new [] = (if old = [] then new else [])"
| "replace old new (c # cs) =
     (if old = [] then new @ c # replace old new cs
      else if prefix old (c # cs) then new @ replace old new (drop (length old - 1) cs)
      else c # replace old new cs)"

fun str_nat :: "nat \<Rightarrow> string" where
  "str_nat n = (if n < 10 then [char_of (48 + n)]
                else str_nat (n div 10) @ [char_of (48 + n mod 10)])"

definition newline :: char where
  "newline = CHR 0x0A"

fun join :: "string \<Rightarrow> string list \<Rightarrow> string" where
  "join sep [] = []"
| "join sep [x] = x"
| "join sep (x # y # ys) = x @ sep @ join sep (y # ys)"

section \<open>Query optimizer (src/src/query_optimizer.py): the rewriter\<close>

text \<open>
  A rule of \<open>_load_optimization_rules\<close> is a dictionary of a name, a pattern, a check, an
  action and a description. \<open>optimize_query\<close> runs the rules in the order of the list,
  each on the text the previous ones produced, collects the descriptions of those whose
  check held, and then prepends the hint comments (\<open>_add_query_hints\<close>). The warnings it
  prints are not part of the model.
\<close>

record optimization_rule =
  name :: string
  pattern :: string
  check :: "string \<Rightarrow> bool"
  action :: "string \<Rightarrow> string"
  description :: string

definition date_filter_text :: string where
  "date_filter_text = ''date >= DATE_SUB(CURRENT_DATE(), INTERVAL 30 DAY)''"

definition add_date_filter :: "string \<Rightarrow> string" where
  "add_date_filter q =
     (if contains ''WHERE'' (upper q)
      then replace ''WHERE'' (''WHERE '' @ date_filter_text @ '' AND'') q
      else replace ''FROM'' ''FROM'' q @ '' WHERE '' @ date_filter_text)"

definition add_limit :: "string \<Rightarrow> string" where
  "add_limit q = (if \<not> contains ''LIMIT'' (upper q) then q @ '' LIMIT 10000'' else q)"

definition optimize_select_star :: "string \<Rightarrow> string" where
  "optimize_select_star q = q"

definition use_approx_functions :: "string \<Rightarrow> string" where
  "use_approx_functions q =
     replace ''APPROX_COUNT_DISTINCT(('' ''APPROX_COUNT_DISTINCT(''
       (replace ''COUNT(DISTINCT'' ''APPROX_COUNT_DISTINCT('' q)"

definition load_optimization_rules :: "optimization_rule list" where
  "load_optimization_rules =
     [ \<lparr> name = ''add_date_filter'', pattern = ''WHERE'',
         check = (\<lambda>q. contains ''WHERE'' (upper q) \<and> \<not> contains ''DATE'' (upper q)),
         action = add_date_filter,
         description = ''Add date filter to reduce data scanned'' \<rparr>,
       \<lparr> name = ''add_limit'', pattern = ''SELECT'',
         check = (\<lambda>q. contains ''SELECT'' (upper q) \<and> \<not> contains ''LIMIT'' (upper q)
                        \<and> \<not> contains ''GROUP BY'' (upper q)),
         action = add_limit,
         description = ''Add LIMIT to prevent scanning entire table'' \<rparr>,
       \<lparr> name = ''optimize_select_star'', pattern = ''SELECT *'',
         check = (\<lambda>q. contains ''SELECT *'' (upper q)),
         action = optimize_select_star,
         description = ''Replace SELECT * with specific columns'' \<rparr>,
       \<lparr> name = ''use_approx_functions'', pattern = ''COUNT(DISTINCT'',
         check = (\<lambda>q. contains ''COUNT(DISTINCT'' (upper q)),
         action = use_approx_functions,
         description = ''Use APPROX functions for better performance'' \<rparr> ]"

definition CACHE_PATTERNS :: "(string \<times> nat) list" where
  "CACHE_PATTERNS =
     [(''dashboard'', 3600), (''report'', 7200), (''historical'', 86400),
      (''realtime'', 300), (''funnel'', 1800)]"

definition cache_ttl_for :: "string \<Rightarrow> nat" where
  "cache_ttl_for query_type =
     (case map_of CACHE_PATTERNS query_type of Some v \<Rightarrow> v | None \<Rightarrow> 3600)"

definition add_query_hints :: "string \<Rightarrow> string \<Rightarrow> string" where
  "add_query_hints q query_type =
     (let hints = [''@cache_ttl='' @ str_nat (cache_ttl_for query_type)]
                  @ (if query_type = ''dashboard'' then [''@priority=INTERACTIVE'']
                     else if query_type = ''report'' then [''@priority=BATCH'']
                     else [])
      in if hints \<noteq> []
         then join [newline] (map (\<lambda>hint. ''-- '' @ hint) hints) @ [newline] @ q
         else q)"

definition apply_rule :: "string \<times> string list \<Rightarrow> optimization_rule \<Rightarrow> string \<times> string list" where
  "apply_rule st rule =
     (case st of (optimized, optimizations_applied) \<Rightarrow>
        if check rule optimized
        then (action rule optimized, optimizations_applied @ [description rule])
        else (optimized, optimizations_applied))"

text \<open>The \<open>for\<close> loop of \<open>optimize_query\<close>, from the query and an empty list.\<close>

definition apply_rules :: "string \<Rightarrow> string \<times> string list" where
  "apply_rules q = foldl apply_rule (q, []) load_optimization_rules"

definition optimize_query :: "string \<Rightarrow> string \<Rightarrow> string \<times> string list" where
  "optimize_query q query_type =
     (case apply_rules q of
        (optimized, optimizations_applied) \<Rightarrow>
          (add_query_hints optimized query_type, optimizations_applied))"

text \<open>
  ASCII text without an upper-case letter: what a query written in lower case is.
  (Outside ASCII, \<open>str.upper\<close> can give ASCII capitals, which \<open>upper\<close> does not model.)
\<close>

definition no_uppercase :: "string \<Rightarrow> bool" where
  "no_uppercase q =
     list_all (\<lambda>c. (of_char c :: nat) < 128
                  \<and> \<not> (65 \<le> (of_char c :: nat) \<and> (of_char c :: nat) \<le> 90)) q"

section \<open>Query optimizer: the result cache (\<open>QueryCache\<close>)\<close>

text \<open>
  The cache dictionary is an association list in insertion order. \<open>get_cache_key\<close> (an MD5
  digest of the query text followed by the JSON of the parameters) is a parameter of the
  operations that use it. \<open>datetime.now()\<close> is a parameter too, one for each reading of
  the clock, in seconds; \<open>timedelta(seconds=ttl)\<close> adds \<open>ttl\<close> to it. A cached payload
  is any Python value, \<open>None\<close> included: payloads are \<open>'v option\<close>, and \<open>get\<close> returns
  \<open>None\<close> for a miss, as the source does. \<open>str\<close> of an entry, which \<open>get_stats\<close>
  measures, is a parameter.
\<close>

record 'v cache_entry =
  data :: "'v option"
  expires :: real
  query :: string
  cached_at :: real

record ('k, 'v) QueryCache =
  cache :: "('k \<times> 'v cache_entry) list"
  default_ttl :: int
  hit_count :: int
  miss_count :: int

definition QueryCache_init :: "int \<Rightarrow> ('k, 'v) QueryCache" where
  "QueryCache_init ttl = \<lparr> cache = [], default_ttl = ttl, hit_count = 0, miss_count = 0 \<rparr>"

definition get_hit_rate :: "('k, 'v) QueryCache \<Rightarrow> real" where
  "get_hit_rate self =
     (let total = hit_count self + miss_count self in
      if total = 0 then 0
      else (real_of_int (hit_count self) / real_of_int total) * 100)"

definition QueryCache_get ::
  "(string \<Rightarrow> 'p \<Rightarrow> 'k) \<Rightarrow> real \<Rightarrow> string \<Rightarrow> 'p \<Rightarrow> ('k, 'v) QueryCache
     \<Rightarrow> 'v option \<times> ('k, 'v) QueryCache" where
  "QueryCache_get get_cache_key now q params self =
     (let key = get_cache_key q params in
      case map_of (cache self) key of
        Some entry \<Rightarrow>
          if now < expires entry
          then (data entry, self\<lparr>hit_count := hit_count self + 1\<rparr>)
          else (None, self\<lparr>cache := AList.delete key (cache self),
                            miss_count := miss_count self + 1\<rparr>)
      | None \<Rightarrow> (None, self\<lparr>miss_count := miss_count self + 1\<rparr>))"

definition QueryCache_set ::
  "(string \<Rightarrow> 'p \<Rightarrow> 'k) \<Rightarrow> real \<Rightarrow> real \<Rightarrow> string \<Rightarrow> 'v option \<Rightarrow> int option \<Rightarrow> 'p
     \<Rightarrow> ('k, 'v) QueryCache \<Rightarrow> ('k, 'v) QueryCache" where
  "QueryCache_set get_cache_key now now' q d ttl params self =
     (let key = get_cache_key q params;
          ttl' = (case ttl of None \<Rightarrow> default_ttl self
                  | Some t \<Rightarrow> if t = 0 then default_ttl self else t)
      in self\<lparr>cache :=
            AList.update key
              \<lparr> data = d, expires = now + real_of_int ttl', query = take 100 q,
                cached_at = now' \<rparr>
              (cache self)\<rparr>)"

definition clear_expired :: "real \<Rightarrow> ('k, 'v) QueryCache \<Rightarrow> ('k, 'v) QueryCache" where
  "clear_expired now self =
     self\<lparr>cache := filter (\<lambda>(k, v). \<not> now \<ge> expires v) (cache self)\<rparr>"

record cache_stats =
  entries :: int
  hits :: int
  misses :: int
  hit_rate :: real
  memory_estimate :: int

definition get_stats :: "('v cache_entry \<Rightarrow> string) \<Rightarrow> ('k, 'v) QueryCache \<Rightarrow> cache_stats" where
  "get_stats str self =
     \<lparr> entries = int (length (cache self)),
       hits = hit_count self,
       misses = miss_count self,
       hit_rate = get_hit_rate self,
       memory_estimate = (\<Sum>(k, v) \<leftarrow> cache self. int (length (str v))) \<rparr>"

definition get_cached_or_execute ::
  "(string \<Rightarrow> 'p \<Rightarrow> 'k) \<Rightarrow> real \<Rightarrow> real \<Rightarrow> real \<Rightarrow> string \<Rightarrow> (string \<Rightarrow> 'e + 'v option)
     \<Rightarrow> string \<Rightarrow> 'p \<Rightarrow> ('k, 'v) QueryCache
     \<Rightarrow> ('e + 'v option) \<times> ('k, 'v) QueryCache" where
  "get_cached_or_execute get_cache_key now1 now2 now3 q executor_func query_type params self =
     (case QueryCache_get get_cache_key now1 q params self of
        (Some cached_result, self1) \<Rightarrow> (Inr (Some cached_result), self1)
      | (None, self1) \<Rightarrow>
          (case optimize_query q query_type of (optimized_query, optimizations) \<Rightarrow>
             (case executor_func optimized_query of
                Inl e \<Rightarrow> (Inl e, self1)
              | Inr result \<Rightarrow>
                  (Inr result,
                   QueryCache_set get_cache_key now2 now3 q result
                     (Some (int (cache_ttl_for query_type))) params self1))))"

text \<open>
  A sequence of lookups, each with its clock reading, threads the cache through
  \<open>get\<close>. \<open>is_hit\<close> is the condition under which \<open>get\<close> takes its hit branch (the key
  is present and the entry has not expired), and \<open>count_hits\<close> counts the lookups of a
  sequence that meet it.
\<close>

fun lookups ::
  "(string \<Rightarrow> 'p \<Rightarrow> 'k) \<Rightarrow> (real \<times> string \<times> 'p) list \<Rightarrow> ('k, 'v) QueryCache
     \<Rightarrow> ('k, 'v) QueryCache" where
  "lookups get_cache_key [] self = self"
| "lookups get_cache_key ((now, q, params) # rest) self =
     lookups get_cache_key rest (snd (QueryCache_get get_cache_key now q params self))"

definition is_hit ::
  "(string \<Rightarrow> 'p \<Rightarrow> 'k) \<Rightarrow> real \<Rightarrow> string \<Rightarrow> 'p \<Rightarrow> ('k, 'v) QueryCache \<Rightarrow> bool" where
  "is_hit get_cache_key now q params self =
     (case map_of (cache self) (get_cache_key q params) of
        Some entry \<Rightarrow> now < expires entry
      | None \<Rightarrow> False)"

fun count_hits ::
  "(string \<Rightarrow> 'p \<Rightarrow> 'k) \<Rightarrow> (real \<times> string \<times> 'p) list \<Rightarrow> ('k, 'v) QueryCache \<Rightarrow> nat" where
  "count_hits get_cache_key [] self = 0"
| "count_hits get_cache_key ((now, q, params) # rest) self =
     (if is_hit get_cache_key now q params self then 1 else 0)
     + count_hits get_cache_key rest (snd (QueryCache_get get_cache_key now q params self))"

section \<open>Warehouse manager (src/src/bigquery_optimized.py): cost control\<close>

text \<open>
  The BigQuery client is outside the repository; its answers are parameters:
  \<^item> \<open>dry_run q\<close>: what the dry run of \<open>q\<close> gives, \<open>Inl msg\<close> when it raises (with
    \<open>msg\<close> the text of the exception), \<open>Inr b\<close> for its \<open>total_bytes_processed\<close>
    (\<open>None\<close> when the job reports none; the division then raises inside the \<open>try\<close>);
  \<^item> \<open>run q\<close>: what running \<open>q\<close> gives, \<open>Inl e\<close> when \<open>client.query\<close> or
    \<open>query_job.result()\<close> raises \<open>e\<close>, \<open>Inr (rows, billed)\<close> otherwise;
  \<^item> \<open>track query_type text\<close>: an exception that escapes \<open>_track_query_cost\<close>
    (it writes a temporary file and loads it into a table; its \<open>finally\<close> clause can
    raise), or \<open>None\<close>.
  The fields of the dictionary that \<open>estimate_query_cost\<close> returns carry the prefix
  \<open>ce_\<close>; a key that the dictionary lacks is \<open>None\<close>.
\<close>

record cost_estimate =
  ce_error :: "string option"
  ce_bytes_processed :: int
  ce_estimated_cost :: real
  ce_cost_warning :: "bool option"
  ce_within_limit :: bool

definition MAX_BYTES_PER_QUERY :: int where
  "MAX_BYTES_PER_QUERY = 100000000"

definition MAX_QUERIES_PER_DAY :: int where
  "MAX_QUERIES_PER_DAY = 1000"

definition COST_PER_TB :: real where
  "COST_PER_TB = 5"

definition error_estimate :: "string \<Rightarrow> cost_estimate" where
  "error_estimate msg =
     \<lparr> ce_error = Some msg, ce_bytes_processed = 0, ce_estimated_cost = 0,
       ce_cost_warning = None, ce_within_limit = False \<rparr>"

text \<open>The text of the \<open>TypeError\<close> that dividing \<open>None\<close> raises.\<close>

definition none_type_error :: string where
  "none_type_error =
     ''unsupported operand type(s) for /: '' @ [CHR 0x27] @ ''NoneType'' @ [CHR 0x27]
     @ '' and '' @ [CHR 0x27] @ ''int'' @ [CHR 0x27]"

definition estimate_query_cost :: "(string \<Rightarrow> string + int option) \<Rightarrow> string \<Rightarrow> cost_estimate" where
  "estimate_query_cost dry_run q =
     (case dry_run q of
        Inl msg \<Rightarrow> error_estimate msg
      | Inr None \<Rightarrow>
          error_estimate none_type_error
      | Inr (Some bytes_processed) \<Rightarrow>
          (let cost = (real_of_int bytes_processed / 1000000000000) * COST_PER_TB in
           \<lparr> ce_error = None, ce_bytes_processed = bytes_processed,
             ce_estimated_cost = cost,
             ce_cost_warning = Some (cost > 10 / 100),
             ce_within_limit = (bytes_processed \<le> MAX_BYTES_PER_QUERY) \<rparr>))"

definition add_query_optimizations :: "string \<Rightarrow> string" where
  "add_query_optimizations q =
     (let q1 = (if contains ''WHERE'' (upper q) \<and> \<not> contains ''DATE'' (upper q)
                then replace ''WHERE'' (''WHERE '' @ date_filter_text @ '' AND'') q
                else q)
      in if contains ''SELECT'' (upper q1) \<and> \<not> contains ''LIMIT'' (upper q1)
            \<and> \<not> contains ''GROUP BY'' (upper q1)
         then q1 @ '' LIMIT 10000''
         else q1)"

record bq_manager =
  queries_today :: int
  bytes_processed_today :: int

datatype 'e raised =
    DailyQueryLimit int
  | QueryExceedsByteLimit int
  | Propagated 'e

definition execute_query_with_cost_control ::
  "(string \<Rightarrow> string + int option) \<Rightarrow> (string \<Rightarrow> 'e + 'r \<times> int option)
     \<Rightarrow> (string \<Rightarrow> string \<Rightarrow> 'e option) \<Rightarrow> string \<Rightarrow> string \<Rightarrow> bq_manager
     \<Rightarrow> ('e raised + 'r) \<times> bq_manager" where
  "execute_query_with_cost_control dry_run run track q query_type self =
     (if queries_today self \<ge> MAX_QUERIES_PER_DAY
      then (Inl (DailyQueryLimit MAX_QUERIES_PER_DAY), self)
      else
        (let cost_estimate = estimate_query_cost dry_run q in
         if \<not> ce_within_limit cost_estimate
         then (Inl (QueryExceedsByteLimit (ce_bytes_processed cost_estimate)), self)
         else
           (let optimized_query = add_query_optimizations q in
            case run optimized_query of
              Inl e \<Rightarrow> (Inl (Propagated e), self)
            | Inr (results, total_bytes_billed) \<Rightarrow>
                (case track query_type (take 500 optimized_query) of
                   Some e \<Rightarrow> (Inl (Propagated e), self)
                 | None \<Rightarrow>
                     (Inr results,
                      self\<lparr> queries_today := queries_today self + 1,
                             bytes_processed_today :=
                               bytes_processed_today self
                               + (case total_bytes_billed of None \<Rightarrow> 0 | Some b \<Rightarrow> b) \<rparr>)))))"

section \<open>Properties of the cost monitor\<close>

lemmas monitor_defs =
  update_usage_def check_limits_def reset_daily_counters_def reset_hourly_counters_def
  reset_monthly_counters_def CostMonitor_init_def CostThresholds_default_def
  check_query_cost_def estimate_cost_def

text \<open>
  C1. The claim: while the emergency-stop flag is set, \<open>check_query_cost\<close> rejects every
  request. The code sets the flag in \<open>_check_limits\<close> and announces that operations are
  suspended, but \<open>check_query_cost\<close> never reads it. The state below is reached from a new
  monitor by recording a cost of 151 dollars, rolling the day over and recording one cheap
  query: the monthly limit sets the flag again, and a 10 MB query is still approved.
\<close>

theorem check_query_cost_ignores_emergency_stop:
  "emergency_stop
     (fst (update_usage 10000000 (5 / 100000)
        (reset_daily_counters (fst (update_usage 0 151 CostMonitor_init)))))
   \<and> approved
     (check_query_cost
        (fst (update_usage 10000000 (5 / 100000)
           (reset_daily_counters (fst (update_usage 0 151 CostMonitor_init)))))
        10000000)"
  by (simp add: monitor_defs Let_def)

text \<open>
  C3, as stated, at the defaults of the repository (daily limit 5.00, byte limit 100 MB):
  with a day cost of 4.80, the estimate that costs 0.10 is 20 GB, and it is rejected, by
  the byte limit.
\<close>

theorem check_query_cost_ten_cents_counterexample:
  "daily_limit (thresholds CostMonitor_init) = 5
   \<and> estimate_cost 20000000000 = 10 / 100
   \<and> \<not> approved
        (check_query_cost (CostMonitor_init\<lparr>current_day_cost := 480 / 100\<rparr>) 20000000000)"
  by (simp add: monitor_defs Let_def)

text \<open>
  C3, amended. For every monitor state and every byte estimate, \<open>check_query_cost\<close> rejects
  when the estimated cost exceeds the per-query limit, when the day's cost plus the
  estimated cost exceeds the daily limit, and when the bytes exceed the per-query byte
  limit; it approves exactly when none of the three holds. So an estimate that fits the
  daily budget is approved only if it also passes the cost limit and the byte limit.
\<close>

theorem check_query_cost_rejections:
  "(estimate_cost b > query_cost_limit (thresholds s)
      \<longrightarrow> \<not> approved (check_query_cost s b))
   \<and> (current_day_cost s + estimate_cost b > daily_limit (thresholds s)
      \<longrightarrow> \<not> approved (check_query_cost s b))
   \<and> (b > bytes_per_query_limit (thresholds s)
      \<longrightarrow> \<not> approved (check_query_cost s b))
   \<and> (approved (check_query_cost s b) \<longleftrightarrow>
        \<not> estimate_cost b > query_cost_limit (thresholds s)
        \<and> \<not> b > bytes_per_query_limit (thresholds s)
        \<and> \<not> current_day_cost s + estimate_cost b > daily_limit (thresholds s))"
  by (simp add: check_query_cost_def Let_def)

theorem check_query_cost_rejections_witness:
  "estimate_cost 202000000000 = 101 / 100
   \<and> estimate_cost 202000000000
       > query_cost_limit (thresholds (CostMonitor_init\<lparr>current_day_cost := 480 / 100\<rparr>))
   \<and> current_day_cost (CostMonitor_init\<lparr>current_day_cost := 480 / 100\<rparr>)
         + estimate_cost 202000000000
       > daily_limit (thresholds (CostMonitor_init\<lparr>current_day_cost := 480 / 100\<rparr>))
   \<and> 202000000000
       > bytes_per_query_limit (thresholds (CostMonitor_init\<lparr>current_day_cost := 480 / 100\<rparr>))
   \<and> \<not> approved
        (check_query_cost (CostMonitor_init\<lparr>current_day_cost := 480 / 100\<rparr>) 202000000000)"
proof -
  let ?s = "CostMonitor_init\<lparr>current_day_cost := 480 / 100\<rparr>"
  have e: "estimate_cost 202000000000 = 101 / 100"
    by (simp add: estimate_cost_def)
  have h1: "estimate_cost 202000000000 > query_cost_limit (thresholds ?s)"
    by (simp add: monitor_defs)
  have h2: "current_day_cost ?s + estimate_cost 202000000000 > daily_limit (thresholds ?s)"
    by (simp add: monitor_defs)
  have h3: "202000000000 > bytes_per_query_limit (thresholds ?s)"
    by (simp add: monitor_defs)
  have "\<not> approved (check_query_cost ?s 202000000000)"
    using check_query_cost_rejections [where b = 202000000000 and s = ?s] h1 by blast
  with e h1 h2 h3 show ?thesis by blast
qed

text \<open>
  C4, as stated: a stop set by a monthly-cost breach is not cleared by a day rollover.
  After 151 dollars, a day rollover and one more dollar, the flag is set by the monthly
  limit alone (the day's cost and count are within their limits); the next day rollover
  clears it while the month's cost still exceeds the monthly limit.
\<close>

theorem reset_daily_clears_monthly_stop_counterexample:
  "emergency_stop
     (fst (update_usage 0 1 (reset_daily_counters (fst (update_usage 0 151 CostMonitor_init)))))
   \<and> current_day_cost
       (fst (update_usage 0 1 (reset_daily_counters (fst (update_usage 0 151 CostMonitor_init)))))
     \<le> daily_limit (thresholds CostMonitor_init)
   \<and> current_day_queries
       (fst (update_usage 0 1 (reset_daily_counters (fst (update_usage 0 151 CostMonitor_init)))))
     \<le> queries_per_day_limit (thresholds CostMonitor_init)
   \<and> current_month_cost
       (reset_daily_counters
         (fst (update_usage 0 1
           (reset_daily_counters (fst (update_usage 0 151 CostMonitor_init))))))
     > monthly_limit (thresholds CostMonitor_init)
   \<and> \<not> emergency_stop
       (reset_daily_counters
         (fst (update_usage 0 1
           (reset_daily_counters (fst (update_usage 0 151 CostMonitor_init))))))"
  by (simp add: monitor_defs Let_def)

text \<open>
  C4, amended. Once set, the emergency-stop flag stays set across \<open>update_usage\<close>,
  \<open>reset_hourly_counters\<close> and \<open>reset_monthly_counters\<close> (which zeroes the month's cost
  and leaves the flag); \<open>reset_daily_counters\<close> clears it whatever set it, and leaves the
  month's cost as it was.
\<close>

theorem emergency_stop_persistence:
  "emergency_stop s \<Longrightarrow>
     emergency_stop (fst (update_usage b c s))
     \<and> emergency_stop (reset_hourly_counters s)
     \<and> emergency_stop (reset_monthly_counters s)
     \<and> current_month_cost (reset_monthly_counters s) = 0
     \<and> \<not> emergency_stop (reset_daily_counters s)
     \<and> current_month_cost (reset_daily_counters s) = current_month_cost s"
  by (simp add: update_usage_def check_limits_def reset_hourly_counters_def
      reset_monthly_counters_def reset_daily_counters_def Let_def)

theorem emergency_stop_persistence_witness:
  "emergency_stop (fst (update_usage 0 151 CostMonitor_init))
   \<and> emergency_stop (fst (update_usage 7 2 (fst (update_usage 0 151 CostMonitor_init))))
   \<and> emergency_stop (reset_monthly_counters (fst (update_usage 0 151 CostMonitor_init)))
   \<and> \<not> emergency_stop (reset_daily_counters (fst (update_usage 0 151 CostMonitor_init)))"
proof -
  have h: "emergency_stop (fst (update_usage 0 151 CostMonitor_init))"
    by (simp add: monitor_defs Let_def)
  from emergency_stop_persistence [OF h, where b = 7 and c = 2] h show ?thesis by blast
qed

text \<open>
  C8. \<open>update_usage\<close> does not depend on \<open>bytes_processed\<close>: for every state and cost, two
  calls that differ only in the bytes give the same state and the same alerts.
\<close>

theorem update_usage_ignores_bytes:
  "update_usage b1 c s = update_usage b2 c s"
  by (simp add: update_usage_def)

section \<open>Properties of the result cache\<close>

lemma get_counters:
  "hit_count (snd (QueryCache_get g now q p c))
     = hit_count c + (if is_hit g now q p c then 1 else 0)"
  "miss_count (snd (QueryCache_get g now q p c))
     = miss_count c + (if is_hit g now q p c then 0 else 1)"
  by (simp_all add: QueryCache_get_def is_hit_def Let_def split: option.splits)

lemma lookups_counters:
  "hit_count (lookups g reqs c) = hit_count c + int (count_hits g reqs c)
   \<and> miss_count (lookups g reqs c)
       = miss_count c + int (length reqs) - int (count_hits g reqs c)"
  by (induction g reqs c rule: lookups.induct) (simp_all add: get_counters)

text \<open>
  C6, as stated: the hit rate equals hits / (hits + misses). An entry is stored, then looked
  up once (a hit), then another query is looked up (a miss): \<open>get_stats\<close> reports one hit,
  one miss and a hit rate of 50, not 1/2.
\<close>

theorem hit_rate_fraction_counterexample:
  "hits (get_stats (\<lambda>e. [])
      (lookups (\<lambda>q (p::unit). q) [(1, ''q'', ()), (2, ''r'', ())]
        (QueryCache_set (\<lambda>q (p::unit). q) 0 0 ''q'' (Some (1::nat)) None ()
          (QueryCache_init 3600)))) = 1
   \<and> misses (get_stats (\<lambda>e. [])
      (lookups (\<lambda>q (p::unit). q) [(1, ''q'', ()), (2, ''r'', ())]
        (QueryCache_set (\<lambda>q (p::unit). q) 0 0 ''q'' (Some (1::nat)) None ()
          (QueryCache_init 3600)))) = 1
   \<and> hit_rate (get_stats (\<lambda>e. [])
      (lookups (\<lambda>q (p::unit). q) [(1, ''q'', ()), (2, ''r'', ())]
        (QueryCache_set (\<lambda>q (p::unit). q) 0 0 ''q'' (Some (1::nat)) None ()
          (QueryCache_init 3600)))) = 50
   \<and> (50 :: real) \<noteq> 1 / (1 + 1)"
  by (simp add: get_stats_def get_hit_rate_def QueryCache_get_def QueryCache_set_def
      QueryCache_init_def Let_def)

text \<open>
  C6, amended. After any sequence of lookups on any cache, \<open>get_stats\<close> reports the hit
  count (the count before plus the lookups that hit), the miss count (the count before
  plus the lookups that missed), the number of entries, and as hit rate the percentage
  100 * hits / (hits + misses), which is 0 when the two counts are 0.
\<close>

theorem get_stats_after_lookups:
  "hits (get_stats str (lookups g reqs c)) = hit_count c + int (count_hits g reqs c)
   \<and> misses (get_stats str (lookups g reqs c))
       = miss_count c + int (length reqs) - int (count_hits g reqs c)
   \<and> entries (get_stats str (lookups g reqs c)) = int (length (cache (lookups g reqs c)))
   \<and> hit_rate (get_stats str (lookups g reqs c))
       = (if hits (get_stats str (lookups g reqs c))
               + misses (get_stats str (lookups g reqs c)) = 0
          then 0
          else 100 * real_of_int (hits (get_stats str (lookups g reqs c)))
               / real_of_int (hits (get_stats str (lookups g reqs c))
                              + misses (get_stats str (lookups g reqs c))))"
  using lookups_counters [of g reqs c]
  by (simp add: get_stats_def get_hit_rate_def Let_def)

text \<open>
  C10. \<open>set\<close> with \<open>ttl = 0\<close> stores the entry with the cache's default time-to-live
  (\<open>ttl or self.default_ttl\<close>), and a \<open>get\<close> of the same query and parameters at any time
  before that expiry returns the payload.
\<close>

theorem set_ttl_zero_uses_default:
  "t < now + real_of_int (default_ttl c) \<Longrightarrow>
     map_of (cache (QueryCache_set g now now' q d (Some 0) p c)) (g q p)
       = Some \<lparr> data = d, expires = now + real_of_int (default_ttl c), query = take 100 q,
                cached_at = now' \<rparr>
     \<and> fst (QueryCache_get g t q p (QueryCache_set g now now' q d (Some 0) p c)) = d"
  by (simp add: QueryCache_get_def QueryCache_set_def Let_def update_conv')

theorem set_ttl_zero_uses_default_witness:
  "(3599 :: real) < 0 + real_of_int (default_ttl (QueryCache_init 3600 :: (string, nat) QueryCache))
   \<and> map_of (cache (QueryCache_set (\<lambda>q (p::unit). q) 0 0 ''SELECT 1'' (Some (7::nat)) (Some 0) ()
                (QueryCache_init 3600))) ''SELECT 1''
       = Some \<lparr> data = Some 7, expires = 3600, query = ''SELECT 1'', cached_at = 0 \<rparr>
   \<and> fst (QueryCache_get (\<lambda>q (p::unit). q) 3599 ''SELECT 1'' ()
        (QueryCache_set (\<lambda>q (p::unit). q) 0 0 ''SELECT 1'' (Some (7::nat)) (Some 0) ()
          (QueryCache_init 3600))) = Some 7"
proof -
  let ?c = "QueryCache_init 3600 :: (string, nat) QueryCache"
  have h: "(3599 :: real) < 0 + real_of_int (default_ttl ?c)"
    by (simp add: QueryCache_init_def)
  have d: "default_ttl ?c = 3600" "take 100 ''SELECT 1'' = ''SELECT 1''"
    by (simp_all add: QueryCache_init_def)
  from set_ttl_zero_uses_default
         [OF h, where g = "\<lambda>q (p::unit). q" and now' = 0 and q = "''SELECT 1''"
            and d = "Some 7" and p = "()"]
  show ?thesis using h d by simp
qed

section \<open>Properties of the estimators and of execution under cost control\<close>

lemmas bq_defs =
  estimate_query_cost_def error_estimate_def MAX_BYTES_PER_QUERY_def
  MAX_QUERIES_PER_DAY_def COST_PER_TB_def

text \<open>
  C5, as stated: a negative byte count yields a zero-cost estimate flagged as an
  estimation error. For minus one terabyte, \<open>estimate_query_cost\<close> returns a cost of
  minus five dollars with no error and \<open>within_limit\<close> true, and \<open>check_query_cost\<close> on a
  new monitor approves it with that negative cost.
\<close>

theorem negative_bytes_counterexample:
  "estimate_query_cost (\<lambda>q. Inr (Some (- 1000000000000))) ''SELECT 1''
     = \<lparr> ce_error = None, ce_bytes_processed = - 1000000000000, ce_estimated_cost = - 5,
         ce_cost_warning = Some False, ce_within_limit = True \<rparr>
   \<and> check_query_cost CostMonitor_init (- 1000000000000)
     = \<lparr> approved = True, reason = None, warning = None, estimated_cost = Some (- 5),
         severity = INFO \<rparr>"
  by (simp add: bq_defs monitor_defs Let_def)

text \<open>
  C5, amended. The estimate is a function of the byte count alone, bytes * 5 / 10^12.
  A negative byte count \<open>b\<close> (one that a 64-bit byte counter can hold) is not treated as
  invalid: its cost is negative; \<open>estimate_query_cost\<close>, when the dry run reports \<open>b\<close>,
  returns that negative cost with no error, no cost warning and within the limit; and
  \<open>check_query_cost\<close> with the default thresholds rejects it when the day's cost plus
  the negative estimate is above the daily limit of 5, as it does for any estimate, and
  otherwise approves it with the negative cost, no warning and severity \<open>INFO\<close>.
  For every byte count in the 64-bit range, negative or not, the estimate that
  \<open>estimate_query_cost\<close> returns has no error and the cost bytes * 5 / 10^12. The
  zero-cost estimate with an error (and \<open>within_limit\<close> false) is what it returns in
  the two remaining cases: the dry run raises, or the dry run reports no byte count.
\<close>

theorem negative_bytes_estimate:
  "(b < 0 \<and> - (2 ^ 63) \<le> b \<longrightarrow>
      estimate_cost b < 0
      \<and> (dry_run q = Inr (Some b) \<longrightarrow>
           estimate_query_cost dry_run q
             = \<lparr> ce_error = None, ce_bytes_processed = b,
                 ce_estimated_cost = estimate_cost b,
                 ce_cost_warning = Some False, ce_within_limit = True \<rparr>)
      \<and> (thresholds s = CostThresholds_default \<longrightarrow>
           check_query_cost s b
             = (if current_day_cost s + estimate_cost b > 5
                then \<lparr> approved = False,
                       reason = Some (WouldExceedDailyBudget (current_day_cost s)
                                        (estimate_cost b) 5),
                       warning = None, estimated_cost = None, severity = CRITICAL \<rparr>
                else \<lparr> approved = True, reason = None, warning = None,
                       estimated_cost = Some (estimate_cost b), severity = INFO \<rparr>)))
   \<and> (dry_run_b q_b = Inr (Some n) \<and> - (2 ^ 63) \<le> n \<and> n < 2 ^ 63 \<longrightarrow>
        ce_error (estimate_query_cost dry_run_b q_b) = None
        \<and> ce_estimated_cost (estimate_query_cost dry_run_b q_b) = estimate_cost n)
   \<and> (dry_run_e q_e = Inl msg \<longrightarrow>
        estimate_query_cost dry_run_e q_e
          = \<lparr> ce_error = Some msg, ce_bytes_processed = 0, ce_estimated_cost = 0,
              ce_cost_warning = None, ce_within_limit = False \<rparr>)
   \<and> (dry_run_n q_n = Inr None \<longrightarrow>
        estimate_query_cost dry_run_n q_n
          = \<lparr> ce_error = Some none_type_error, ce_bytes_processed = 0,
              ce_estimated_cost = 0, ce_cost_warning = None, ce_within_limit = False \<rparr>)"
  by (auto simp: bq_defs check_query_cost_def CostThresholds_default_def estimate_cost_def
      Let_def)

theorem negative_bytes_estimate_witness:
  "(- 1000000000000 :: int) < 0 \<and> - (2 ^ 63) \<le> (- 1000000000000 :: int)
   \<and> estimate_cost (- 1000000000000) < 0
   \<and> estimate_query_cost (\<lambda>q. Inr (Some (- 1000000000000))) ''SELECT 1''
       = \<lparr> ce_error = None, ce_bytes_processed = - 1000000000000,
           ce_estimated_cost = estimate_cost (- 1000000000000),
           ce_cost_warning = Some False, ce_within_limit = True \<rparr>
   \<and> check_query_cost (CostMonitor_init\<lparr>current_day_cost := 6\<rparr>) (- 1000000000000)
       = \<lparr> approved = True, reason = None, warning = None,
           estimated_cost = Some (estimate_cost (- 1000000000000)), severity = INFO \<rparr>
   \<and> ce_error (estimate_query_cost (\<lambda>q. Inr (Some 2000000000000)) ''SELECT 1'') = None
   \<and> ce_estimated_cost (estimate_query_cost (\<lambda>q. Inr (Some 2000000000000)) ''SELECT 1'')
       = estimate_cost 2000000000000
   \<and> estimate_query_cost (\<lambda>q. Inl ''timeout'') ''SELECT 1''
       = \<lparr> ce_error = Some ''timeout'', ce_bytes_processed = 0, ce_estimated_cost = 0,
           ce_cost_warning = None, ce_within_limit = False \<rparr>
   \<and> estimate_query_cost (\<lambda>q. Inr None) ''SELECT 1''
       = \<lparr> ce_error = Some none_type_error, ce_bytes_processed = 0, ce_estimated_cost = 0,
           ce_cost_warning = None, ce_within_limit = False \<rparr>"
proof -
  have h1: "(- 1000000000000 :: int) < 0 \<and> - (2 ^ 63) \<le> (- 1000000000000 :: int)" by simp
  have h2: "(\<lambda>q::string. Inr (Some (- 1000000000000)) :: string + int option) ''SELECT 1''
              = Inr (Some (- 1000000000000))"
    by simp
  have h3: "thresholds (CostMonitor_init\<lparr>current_day_cost := 6\<rparr>) = CostThresholds_default"
    by (simp add: CostMonitor_init_def)
  have h4: "\<not> current_day_cost (CostMonitor_init\<lparr>current_day_cost := 6\<rparr>)
               + estimate_cost (- 1000000000000) > 5"
    by (simp add: estimate_cost_def)
  have h5: "(\<lambda>q::string. Inr (Some 2000000000000) :: string + int option) ''SELECT 1''
              = Inr (Some 2000000000000)
            \<and> - (2 ^ 63) \<le> (2000000000000 :: int) \<and> (2000000000000 :: int) < 2 ^ 63"
    by simp
  have h6: "(\<lambda>q::string. Inl ''timeout'' :: string + int option) ''SELECT 1'' = Inl ''timeout''"
    by simp
  have h7: "(\<lambda>q::string. Inr None :: string + int option) ''SELECT 1'' = Inr None"
    by simp
  from negative_bytes_estimate
         [where b = "- 1000000000000" and s = "CostMonitor_init\<lparr>current_day_cost := 6\<rparr>"
            and dry_run = "\<lambda>q. Inr (Some (- 1000000000000))" and q = "''SELECT 1''"
            and dry_run_b = "\<lambda>q. Inr (Some 2000000000000)" and q_b = "''SELECT 1''"
            and n = 2000000000000
            and dry_run_e = "\<lambda>q. Inl ''timeout''" and q_e = "''SELECT 1''"
            and msg = "''timeout''"
            and dry_run_n = "\<lambda>q. Inr None" and q_n = "''SELECT 1''"]
  show ?thesis using h1 h2 h3 h4 h5 h6 h7 by (simp only: simp_thms if_False)
qed

text \<open>
  C7. A request that the pre-check rejects (the daily query limit is reached, or the
  estimate is not within the byte limit) fails with an error that does not depend on the
  executor, and leaves the manager's counters as they were. A request that passes the
  pre-check and whose execution raises \<open>e\<close> fails with \<open>e\<close> and leaves the counters as
  they were. In \<open>get_cached_or_execute\<close>, when the lookup misses and the executor raises
  \<open>e\<close>, the call fails with \<open>e\<close>, and the cache is the one the lookup left: nothing is
  stored, so its entries are among those it had before.
\<close>

theorem failure_records_nothing:
  "(queries_today s \<ge> MAX_QUERIES_PER_DAY
      \<or> \<not> ce_within_limit (estimate_query_cost dry_run q)
      \<longrightarrow> (\<exists>err. \<forall>(run' :: string \<Rightarrow> 'e + 'r \<times> int option) track'.
             execute_query_with_cost_control dry_run run' track' q t s = (Inl err, s)))
   \<and> (queries_today s < MAX_QUERIES_PER_DAY
      \<and> ce_within_limit (estimate_query_cost dry_run q)
      \<and> (run :: string \<Rightarrow> 'e + 'r \<times> int option) (add_query_optimizations q) = Inl e
      \<longrightarrow> execute_query_with_cost_control dry_run run track q t s = (Inl (Propagated e), s))
   \<and> (fst (QueryCache_get g t_get q p c) = None
      \<and> executor (fst (optimize_query q t)) = Inl e'
      \<longrightarrow> get_cached_or_execute g t_get t_set t_at q executor t p c
            = (Inl e', snd (QueryCache_get g t_get q p c))
          \<and> set (cache (snd (get_cached_or_execute g t_get t_set t_at q executor t p c)))
              \<subseteq> set (cache c))"
proof (intro conjI impI)
  assume "queries_today s \<ge> MAX_QUERIES_PER_DAY
          \<or> \<not> ce_within_limit (estimate_query_cost dry_run q)"
  then show "\<exists>err. \<forall>(run' :: string \<Rightarrow> 'e + 'r \<times> int option) track'.
               execute_query_with_cost_control dry_run run' track' q t s = (Inl err, s)"
    by (auto simp: execute_query_with_cost_control_def Let_def)
next
  assume "queries_today s < MAX_QUERIES_PER_DAY
          \<and> ce_within_limit (estimate_query_cost dry_run q)
          \<and> run (add_query_optimizations q) = Inl e"
  then show "execute_query_with_cost_control dry_run run track q t s
               = (Inl (Propagated e), s)"
    by (auto simp: execute_query_with_cost_control_def Let_def)
next
  assume a: "fst (QueryCache_get g t_get q p c) = None
             \<and> executor (fst (optimize_query q t)) = Inl e'"
  then show "get_cached_or_execute g t_get t_set t_at q executor t p c
               = (Inl e', snd (QueryCache_get g t_get q p c))"
    by (auto simp: get_cached_or_execute_def split: option.splits prod.splits)
  from a show "set (cache (snd (get_cached_or_execute g t_get t_set t_at q executor t p c)))
                 \<subseteq> set (cache c)"
    by (auto simp: get_cached_or_execute_def QueryCache_get_def Let_def AList.delete_eq
        split: option.splits prod.splits if_splits)
qed

theorem failure_records_nothing_witness:
  "queries_today \<lparr>queries_today = 1000, bytes_processed_today = 0\<rparr> \<ge> MAX_QUERIES_PER_DAY
   \<and> (\<exists>err. \<forall>(run' :: string \<Rightarrow> unit + nat \<times> int option) track'.
         execute_query_with_cost_control (\<lambda>q. Inr (Some 10)) run' track' ''SELECT 1'' ''general''
           \<lparr>queries_today = 1000, bytes_processed_today = 0\<rparr>
         = (Inl err, \<lparr>queries_today = 1000, bytes_processed_today = 0\<rparr>))
   \<and> execute_query_with_cost_control (\<lambda>q. Inr (Some 10))
        (\<lambda>q. Inl () :: unit + nat \<times> int option) (\<lambda>ty text. None) ''SELECT 1'' ''general''
        \<lparr>queries_today = 3, bytes_processed_today = 50\<rparr>
       = (Inl (Propagated ()), \<lparr>queries_today = 3, bytes_processed_today = 50\<rparr>)
   \<and> get_cached_or_execute (\<lambda>q (p::unit). q) 5 6 7 ''SELECT 1''
        (\<lambda>q. Inl () :: unit + nat option) ''general'' ()
        (QueryCache_init 3600 :: (string, nat) QueryCache)
       = (Inl (), (QueryCache_init 3600) \<lparr>miss_count := 1\<rparr>)"
proof -
  let ?s1 = "\<lparr>queries_today = 1000, bytes_processed_today = 0\<rparr>"
  let ?s2 = "\<lparr>queries_today = 3, bytes_processed_today = 50\<rparr>"
  let ?dry = "\<lambda>q::string. Inr (Some 10) :: string + int option"
  let ?run = "\<lambda>q::string. Inl () :: unit + nat \<times> int option"
  let ?ex = "\<lambda>q::string. Inl () :: unit + nat option"
  let ?g = "\<lambda>(q::string) (p::unit). q"
  let ?c = "QueryCache_init 3600 :: (string, nat) QueryCache"
  have a1: "queries_today ?s1 \<ge> MAX_QUERIES_PER_DAY"
    by (simp add: MAX_QUERIES_PER_DAY_def)
  have a2: "queries_today ?s2 < MAX_QUERIES_PER_DAY
            \<and> ce_within_limit (estimate_query_cost ?dry ''SELECT 1'')
            \<and> ?run (add_query_optimizations ''SELECT 1'') = Inl ()"
    by (simp add: bq_defs)
  have g: "QueryCache_get ?g 5 ''SELECT 1'' () ?c = (None, ?c\<lparr>miss_count := 1\<rparr>)"
    by (simp add: QueryCache_get_def QueryCache_init_def)
  have a3: "fst (QueryCache_get ?g 5 ''SELECT 1'' () ?c) = None
            \<and> ?ex (fst (optimize_query ''SELECT 1'' ''general'')) = Inl ()"
    by (simp add: g)
  have c1: "\<exists>err. \<forall>(run' :: string \<Rightarrow> unit + nat \<times> int option) track'.
         execute_query_with_cost_control ?dry run' track' ''SELECT 1'' ''general'' ?s1
         = (Inl err, ?s1)"
    using failure_records_nothing
            [where s = ?s1 and dry_run = ?dry and q = "''SELECT 1''" and t = "''general''"
               and 'e = unit and 'r = nat, THEN conjunct1] a1
    by blast
  have c2: "execute_query_with_cost_control ?dry ?run (\<lambda>ty text. None) ''SELECT 1'' ''general'' ?s2
             = (Inl (Propagated ()), ?s2)"
    using failure_records_nothing
            [where s = ?s2 and dry_run = ?dry and q = "''SELECT 1''" and t = "''general''"
               and run = ?run and e = "()" and track = "\<lambda>ty text. None",
             THEN conjunct2, THEN conjunct1] a2
    by blast
  have c3: "get_cached_or_execute ?g 5 6 7 ''SELECT 1'' ?ex ''general'' () ?c
             = (Inl (), snd (QueryCache_get ?g 5 ''SELECT 1'' () ?c))"
    using failure_records_nothing
            [where g = ?g and t_get = 5 and t_set = 6 and t_at = 7 and q = "''SELECT 1''"
               and t = "''general''" and executor = ?ex and e' = "()" and p = "()" and c = ?c,
             THEN conjunct2, THEN conjunct2] a3
    by blast
  from a1 c1 c2 c3 show ?thesis by (simp add: g)
qed

section \<open>Properties of the rewriter\<close>

lemma str_nat_values:
  "str_nat 3600 = ''3600''" "str_nat 7200 = ''7200''" "str_nat 86400 = ''86400''"
  "str_nat 300 = ''300''" "str_nat 1800 = ''1800''"
  by (simp_all add: char_of_def bit_0 bit_Suc)

lemma upper_char_values:
  "upper_char CHR ''-'' = CHR ''-''" "upper_char CHR '' '' = CHR '' ''"
  "upper_char CHR ''@'' = CHR ''@''" "upper_char CHR ''_'' = CHR ''_''"
  "upper_char CHR ''='' = CHR ''=''" "upper_char CHR 0x0A = CHR 0x0A"
  "upper_char CHR ''0'' = CHR ''0''" "upper_char CHR ''1'' = CHR ''1''"
  "upper_char CHR ''2'' = CHR ''2''" "upper_char CHR ''3'' = CHR ''3''"
  "upper_char CHR ''4'' = CHR ''4''" "upper_char CHR ''6'' = CHR ''6''"
  "upper_char CHR ''7'' = CHR ''7''" "upper_char CHR ''8'' = CHR ''8''"
  "upper_char CHR ''a'' = CHR ''A''" "upper_char CHR ''c'' = CHR ''C''"
  "upper_char CHR ''e'' = CHR ''E''" "upper_char CHR ''h'' = CHR ''H''"
  "upper_char CHR ''i'' = CHR ''I''" "upper_char CHR ''l'' = CHR ''L''"
  "upper_char CHR ''o'' = CHR ''O''" "upper_char CHR ''p'' = CHR ''P''"
  "upper_char CHR ''r'' = CHR ''R''" "upper_char CHR ''t'' = CHR ''T''"
  "upper_char CHR ''y'' = CHR ''Y''"
  "upper_char CHR ''A'' = CHR ''A''" "upper_char CHR ''B'' = CHR ''B''"
  "upper_char CHR ''C'' = CHR ''C''" "upper_char CHR ''E'' = CHR ''E''"
  "upper_char CHR ''H'' = CHR ''H''" "upper_char CHR ''I'' = CHR ''I''"
  "upper_char CHR ''N'' = CHR ''N''" "upper_char CHR ''R'' = CHR ''R''"
  "upper_char CHR ''T'' = CHR ''T''" "upper_char CHR ''V'' = CHR ''V''"
  by (simp_all add: upper_char_def char_of_def bit_0 bit_Suc)

text \<open>
  The hint comments are put in front of the text, and are one of six headers: the line of
  the cache lifetime, and for the categories dashboard and report the line of the
  priority.
\<close>

lemma add_query_hints_append: "add_query_hints y t = add_query_hints [] t @ y"
  by (simp add: add_query_hints_def Let_def)

lemma add_query_hints_nonempty: "add_query_hints [] t \<noteq> []"
  by (simp add: add_query_hints_def Let_def)

lemma add_query_hints_cases:
  "add_query_hints [] t \<in> set
     [''-- @cache_ttl=3600'' @ [newline] @ ''-- @priority=INTERACTIVE'' @ [newline],
      ''-- @cache_ttl=7200'' @ [newline] @ ''-- @priority=BATCH'' @ [newline],
      ''-- @cache_ttl=86400'' @ [newline],
      ''-- @cache_ttl=300'' @ [newline],
      ''-- @cache_ttl=1800'' @ [newline],
      ''-- @cache_ttl=3600'' @ [newline]]"
proof -
  consider "t = ''dashboard''" | "t = ''report''" | "t = ''historical''"
    | "t = ''realtime''" | "t = ''funnel''"
    | "t \<noteq> ''dashboard''" "t \<noteq> ''report''" "t \<noteq> ''historical''"
      "t \<noteq> ''realtime''" "t \<noteq> ''funnel''"
    by blast
  then show ?thesis
    by cases (simp_all add: add_query_hints_def Let_def cache_ttl_for_def CACHE_PATTERNS_def
        str_nat_values del: str_nat.simps)
qed

text \<open>
  No keyword of the rules occurs in a header or across its end, so the checks and the
  replacements of the rules pass over it.
\<close>

lemma header_contains:
  "\<forall>h \<in> set
     [''-- @cache_ttl=3600'' @ [newline] @ ''-- @priority=INTERACTIVE'' @ [newline],
      ''-- @cache_ttl=7200'' @ [newline] @ ''-- @priority=BATCH'' @ [newline],
      ''-- @cache_ttl=86400'' @ [newline],
      ''-- @cache_ttl=300'' @ [newline],
      ''-- @cache_ttl=1800'' @ [newline],
      ''-- @cache_ttl=3600'' @ [newline]]. \<forall>y.
       contains ''WHERE'' (upper (h @ y)) = contains ''WHERE'' (upper y)
     \<and> contains ''DATE'' (upper (h @ y)) = contains ''DATE'' (upper y)
     \<and> contains ''SELECT'' (upper (h @ y)) = contains ''SELECT'' (upper y)
     \<and> contains ''LIMIT'' (upper (h @ y)) = contains ''LIMIT'' (upper y)
     \<and> contains ''GROUP BY'' (upper (h @ y)) = contains ''GROUP BY'' (upper y)
     \<and> contains ''SELECT *'' (upper (h @ y)) = contains ''SELECT *'' (upper y)
     \<and> contains ''COUNT(DISTINCT'' (upper (h @ y)) = contains ''COUNT(DISTINCT'' (upper y)"
  by (simp add: upper_def upper_char_values newline_def)

lemma header_replace:
  "\<forall>h \<in> set
     [''-- @cache_ttl=3600'' @ [newline] @ ''-- @priority=INTERACTIVE'' @ [newline],
      ''-- @cache_ttl=7200'' @ [newline] @ ''-- @priority=BATCH'' @ [newline],
      ''-- @cache_ttl=86400'' @ [newline],
      ''-- @cache_ttl=300'' @ [newline],
      ''-- @cache_ttl=1800'' @ [newline],
      ''-- @cache_ttl=3600'' @ [newline]]. \<forall>n y.
       replace ''WHERE'' n (h @ y) = h @ replace ''WHERE'' n y
     \<and> replace ''FROM'' n (h @ y) = h @ replace ''FROM'' n y
     \<and> replace ''COUNT(DISTINCT'' n (h @ y) = h @ replace ''COUNT(DISTINCT'' n y
     \<and> replace ''APPROX_COUNT_DISTINCT(('' n (h @ y)
         = h @ replace ''APPROX_COUNT_DISTINCT(('' n y"
  by (simp add: newline_def)

text \<open>
  So the loop over the rules, run on a text that starts with a header, does to the rest
  of the text what it does to it alone, and reports the same rules.
\<close>

lemma apply_rule_header:
  assumes "\<And>y. check r (h @ y) = check r y" and "\<And>y. action r (h @ y) = h @ action r y"
  shows "apply_rule (h @ y, l) r = map_prod ((@) h) id (apply_rule (y, l) r)"
  by (simp add: apply_rule_def assms)

lemma foldl_apply_rule_header:
  assumes "\<forall>r \<in> set rs. (\<forall>y. check r (h @ y) = check r y)
                       \<and> (\<forall>y. action r (h @ y) = h @ action r y)"
  shows "foldl apply_rule (h @ y, l) rs = map_prod ((@) h) id (foldl apply_rule (y, l) rs)"
  using assms
proof (induction rs arbitrary: y l)
  case Nil
  show ?case by simp
next
  case (Cons r rs)
  obtain z m where zm: "apply_rule (y, l) r = (z, m)" by (cases "apply_rule (y, l) r")
  from Cons.prems have "apply_rule (h @ y, l) r = map_prod ((@) h) id (apply_rule (y, l) r)"
    by (intro apply_rule_header) simp_all
  with zm have "apply_rule (h @ y, l) r = (h @ z, m)" by simp
  moreover from Cons.prems have "foldl apply_rule (h @ z, m) rs
      = map_prod ((@) h) id (foldl apply_rule (z, m) rs)"
    by (intro Cons.IH) simp
  ultimately show ?case using zm by (simp add: id_def)
qed

lemma rules_header:
  "\<forall>r \<in> set load_optimization_rules.
     (\<forall>y. check r (add_query_hints [] t @ y) = check r y)
     \<and> (\<forall>y. action r (add_query_hints [] t @ y) = add_query_hints [] t @ action r y)"
proof -
  note c = header_contains [rule_format, OF add_query_hints_cases [of t]]
  note r = header_replace [rule_format, OF add_query_hints_cases [of t]]
  have "add_date_filter (add_query_hints [] t @ y) = add_query_hints [] t @ add_date_filter y"
    for y
    by (simp add: add_date_filter_def c r del: contains.simps replace.simps)
  moreover have "add_limit (add_query_hints [] t @ y) = add_query_hints [] t @ add_limit y"
    for y
    by (simp add: add_limit_def c del: contains.simps replace.simps)
  moreover have "use_approx_functions (add_query_hints [] t @ y)
                   = add_query_hints [] t @ use_approx_functions y" for y
    by (simp add: use_approx_functions_def r del: contains.simps replace.simps)
  ultimately show ?thesis
    unfolding load_optimization_rules_def
    by (simp add: c optimize_select_star_def del: contains.simps replace.simps)
qed

lemma apply_rules_header:
  "apply_rules (add_query_hints [] t @ y)
     = (add_query_hints [] t @ fst (apply_rules y), snd (apply_rules y))"
  unfolding apply_rules_def foldl_apply_rule_header [OF rules_header]
  by (cases "foldl apply_rule (y, []) load_optimization_rules") simp

lemma optimize_query_fst:
  "fst (optimize_query q t) = add_query_hints [] t @ fst (apply_rules q)"
proof (cases "apply_rules q")
  case (Pair z m)
  then show ?thesis
    using add_query_hints_append [of z t] by (simp add: optimize_query_def)
qed

lemma optimize_query_snd: "snd (optimize_query q t) = snd (apply_rules q)"
  by (simp add: optimize_query_def split: prod.split)

lemma second_pass_fst:
  "fst (optimize_query (fst (optimize_query q t)) t)
     = add_query_hints [] t @ add_query_hints [] t @ fst (apply_rules (fst (apply_rules q)))"
  by (simp add: optimize_query_fst apply_rules_header)

lemma second_pass_snd:
  "snd (optimize_query (fst (optimize_query q t)) t) = snd (apply_rules (fst (apply_rules q)))"
  by (simp add: optimize_query_fst optimize_query_snd apply_rules_header)

text \<open>The third test query of the module, and what the rules make of it.\<close>

lemma upper_pages:
  "upper ''SELECT page, views FROM pages'' = ''SELECT PAGE, VIEWS FROM PAGES''"
  "upper ''SELECT page, views FROM pages LIMIT 10000''
     = ''SELECT PAGE, VIEWS FROM PAGES LIMIT 10000''"
  by (simp_all add: upper_def upper_char_def char_of_def bit_0 bit_Suc)

lemma contains_pages:
  "\<not> contains ''WHERE'' ''SELECT PAGE, VIEWS FROM PAGES''"
  "contains ''SELECT'' ''SELECT PAGE, VIEWS FROM PAGES''"
  "\<not> contains ''LIMIT'' ''SELECT PAGE, VIEWS FROM PAGES''"
  "\<not> contains ''GROUP BY'' ''SELECT PAGE, VIEWS FROM PAGES''"
  "\<not> contains ''SELECT *'' ''SELECT PAGE, VIEWS FROM PAGES''"
  "\<not> contains ''COUNT(DISTINCT'' ''SELECT PAGE, VIEWS FROM PAGES''"
  "\<not> contains ''WHERE'' ''SELECT PAGE, VIEWS FROM PAGES LIMIT 10000''"
  "contains ''LIMIT'' ''SELECT PAGE, VIEWS FROM PAGES LIMIT 10000''"
  "\<not> contains ''SELECT *'' ''SELECT PAGE, VIEWS FROM PAGES LIMIT 10000''"
  "\<not> contains ''COUNT(DISTINCT'' ''SELECT PAGE, VIEWS FROM PAGES LIMIT 10000''"
  by simp_all

lemma apply_rules_pages:
  "apply_rules ''SELECT page, views FROM pages''
     = (''SELECT page, views FROM pages LIMIT 10000'',
        [''Add LIMIT to prevent scanning entire table''])"
  "apply_rules ''SELECT page, views FROM pages LIMIT 10000''
     = (''SELECT page, views FROM pages LIMIT 10000'', [])"
  unfolding apply_rules_def load_optimization_rules_def
  by (simp_all add: apply_rule_def add_limit_def upper_pages contains_pages
      del: contains.simps)

lemma add_query_hints_dashboard:
  "add_query_hints [] ''dashboard''
     = ''-- @cache_ttl=3600'' @ [newline] @ ''-- @priority=INTERACTIVE'' @ [newline]"
  by (simp add: add_query_hints_def Let_def cache_ttl_for_def CACHE_PATTERNS_def
      str_nat_values del: str_nat.simps)

text \<open>
  C2, as stated: the rewriter is idempotent. For the module's test query
  \<open>SELECT page, views FROM pages\<close> in the category dashboard, the first application gives
  the two hint lines and the query with its \<open>LIMIT\<close>; the second gives the two hint lines
  twice: the texts differ.
\<close>

theorem optimize_query_not_idempotent_counterexample:
  "fst (optimize_query ''SELECT page, views FROM pages'' ''dashboard'')
     = ''-- @cache_ttl=3600'' @ [newline] @ ''-- @priority=INTERACTIVE'' @ [newline]
       @ ''SELECT page, views FROM pages LIMIT 10000''
   \<and> fst (optimize_query
            (fst (optimize_query ''SELECT page, views FROM pages'' ''dashboard''))
            ''dashboard'')
     = ''-- @cache_ttl=3600'' @ [newline] @ ''-- @priority=INTERACTIVE'' @ [newline]
       @ ''-- @cache_ttl=3600'' @ [newline] @ ''-- @priority=INTERACTIVE'' @ [newline]
       @ ''SELECT page, views FROM pages LIMIT 10000''
   \<and> fst (optimize_query
            (fst (optimize_query ''SELECT page, views FROM pages'' ''dashboard''))
            ''dashboard'')
     \<noteq> fst (optimize_query ''SELECT page, views FROM pages'' ''dashboard'')"
  unfolding second_pass_fst
  unfolding optimize_query_fst apply_rules_pages fst_conv add_query_hints_dashboard
  by (simp add: newline_def)

text \<open>
  C2, amended. \<open>optimize_query\<close> puts the hint comments of the category, which are never
  empty, in front of what the rules make of the query, at every application. Applied to
  its own output it gives the hint comments twice, followed by what the rules make of
  their own first result, and reports the rules that fired on that first result: the
  comments in front do not change what the rules do. So whenever the rules leave their
  own result as it is, the second output is the hint comments followed by the first
  output, and is not the first output.
\<close>

theorem optimize_query_reapplied:
  "fst (optimize_query q t) = add_query_hints [] t @ fst (apply_rules q)
   \<and> add_query_hints [] t \<noteq> []
   \<and> fst (optimize_query (fst (optimize_query q t)) t)
       = add_query_hints [] t @ add_query_hints [] t
         @ fst (apply_rules (fst (apply_rules q)))
   \<and> snd (optimize_query (fst (optimize_query q t)) t)
       = snd (apply_rules (fst (apply_rules q)))
   \<and> (fst (apply_rules (fst (apply_rules q))) = fst (apply_rules q) \<longrightarrow>
        fst (optimize_query (fst (optimize_query q t)) t)
          = add_query_hints [] t @ fst (optimize_query q t)
        \<and> fst (optimize_query (fst (optimize_query q t)) t) \<noteq> fst (optimize_query q t))"
  using add_query_hints_nonempty [of t]
  unfolding second_pass_fst second_pass_snd
  unfolding optimize_query_fst
  by simp

theorem optimize_query_reapplied_witness:
  "fst (apply_rules (fst (apply_rules ''SELECT page, views FROM pages'')))
     = fst (apply_rules ''SELECT page, views FROM pages'')
   \<and> fst (optimize_query
            (fst (optimize_query ''SELECT page, views FROM pages'' ''report'')) ''report'')
       = add_query_hints [] ''report''
         @ fst (optimize_query ''SELECT page, views FROM pages'' ''report'')
   \<and> fst (optimize_query
            (fst (optimize_query ''SELECT page, views FROM pages'' ''report'')) ''report'')
       \<noteq> fst (optimize_query ''SELECT page, views FROM pages'' ''report'')"
proof -
  have h: "fst (apply_rules (fst (apply_rules ''SELECT page, views FROM pages'')))
             = fst (apply_rules ''SELECT page, views FROM pages'')"
    by (simp only: apply_rules_pages fst_conv)
  from optimize_query_reapplied [where q = "''SELECT page, views FROM pages''" and t = "''report''"]
    h
  show ?thesis by blast
qed

text \<open>
  Facts about \<open>contains\<close> and \<open>replace\<close>: an occurrence is a split of the text, and a text
  in which the pattern does not occur is left as it is.
\<close>

lemma contains_iff: "contains p s \<longleftrightarrow> (\<exists>a b. s = a @ p @ b)"
proof (induction s)
  case Nil
  show ?case by auto
next
  case (Cons c cs)
  show ?case
  proof
    assume "contains p (c # cs)"
    then consider "prefix p (c # cs)" | "contains p cs" by auto
    then show "\<exists>a b. c # cs = a @ p @ b"
    proof cases
      case 1
      then obtain b where "c # cs = p @ b" by (auto simp: prefix_def)
      then have "c # cs = [] @ p @ b" by simp
      then show ?thesis by blast
    next
      case 2
      with Cons.IH obtain a b where "cs = a @ p @ b" by blast
      then have "c # cs = (c # a) @ p @ b" by simp
      then show ?thesis by blast
    qed
  next
    assume "\<exists>a b. c # cs = a @ p @ b"
    then obtain a b where ab: "c # cs = a @ p @ b" by blast
    show "contains p (c # cs)"
    proof (cases a)
      case Nil
      with ab have "prefix p (c # cs)" by (simp add: prefix_def)
      then show ?thesis by simp
    next
      case (Cons d a')
      with ab have "cs = a' @ p @ b" by simp
      with Cons.IH have "contains p cs" by blast
      then show ?thesis by simp
    qed
  qed
qed

lemma contains_set: "contains p s \<Longrightarrow> set p \<subseteq> set s"
  by (auto simp: contains_iff)

lemma contains_append: "contains p s \<Longrightarrow> contains p (s @ x)"
proof -
  assume "contains p s"
  then obtain a b where "s = a @ p @ b" by (auto simp: contains_iff)
  then have "s @ x = a @ p @ (b @ x)" by simp
  then show ?thesis unfolding contains_iff by blast
qed

lemma contains_upper: "contains p s \<Longrightarrow> contains (upper p) (upper s)"
proof -
  assume "contains p s"
  then obtain a b where "s = a @ p @ b" by (auto simp: contains_iff)
  then have "upper s = upper a @ upper p @ upper b" by (simp add: upper_def)
  then show ?thesis unfolding contains_iff by blast
qed

lemma replace_absent: "old \<noteq> [] \<Longrightarrow> \<not> contains old s \<Longrightarrow> replace old new s = s"
  by (induction s) auto

lemma replace_absent_char: "c \<in> set old \<Longrightarrow> c \<notin> set s \<Longrightarrow> replace old new s = s"
  using contains_set [of old s] by (intro replace_absent) auto

lemma no_uppercase_chars:
  assumes "no_uppercase q"
  shows "CHR ''W'' \<notin> set q" and "CHR ''C'' \<notin> set q" and "CHR ''A'' \<notin> set q"
  using assms by (auto simp: no_uppercase_def list_all_iff)

lemma upper_keywords:
  "upper ''where'' = ''WHERE''" "upper ''count(distinct'' = ''COUNT(DISTINCT''"
  by (simp_all add: upper_def upper_char_def char_of_def bit_0 bit_Suc)

text \<open>
  The rules on a text without upper-case letters: the replacements of the date filter and
  of the approximate functions find nothing to replace, and the only change is the
  \<open>LIMIT\<close> that the second rule appends when its check holds.
\<close>

lemma apply_rules_lowercase:
  assumes q: "no_uppercase q"
  shows "fst (apply_rules q)
           = q @ (if contains ''SELECT'' (upper q) \<and> \<not> contains ''LIMIT'' (upper q)
                     \<and> \<not> contains ''GROUP BY'' (upper q)
                  then '' LIMIT 10000'' else [])"
    and "contains ''WHERE'' (upper q) \<and> \<not> contains ''DATE'' (upper q)
         \<Longrightarrow> ''Add date filter to reduce data scanned'' \<in> set (snd (apply_rules q))"
    and "contains ''COUNT(DISTINCT'' (upper q)
         \<Longrightarrow> ''Use APPROX functions for better performance'' \<in> set (snd (apply_rules q))"
proof -
  note n = no_uppercase_chars [OF q]
  have a1: "replace ''WHERE'' new q = q" for new
    using n by (intro replace_absent_char [of "CHR ''W''"]) simp_all
  have a4: "use_approx_functions (q @ x) = q @ x"
    if "x = [] \<or> x = '' LIMIT 10000''" for x
  proof -
    from that n have "CHR ''C'' \<notin> set (q @ x)" and "CHR ''A'' \<notin> set (q @ x)" by auto
    then have "replace ''COUNT(DISTINCT'' new (q @ x) = q @ x"
      and "replace ''APPROX_COUNT_DISTINCT(('' new (q @ x) = q @ x" for new
      by (intro replace_absent_char [of "CHR ''C''"] replace_absent_char [of "CHR ''A''"];
          simp)+
    then show ?thesis by (simp add: use_approx_functions_def del: replace.simps)
  qed
  have a4': "use_approx_functions q = q" using a4 [of "[]"] by simp
  have c4: "contains ''COUNT(DISTINCT'' (upper (q @ x))"
    if "contains ''COUNT(DISTINCT'' (upper q)" for x
    using contains_append [OF that, of "upper x"] by (simp add: upper_def)
  show "fst (apply_rules q)
           = q @ (if contains ''SELECT'' (upper q) \<and> \<not> contains ''LIMIT'' (upper q)
                     \<and> \<not> contains ''GROUP BY'' (upper q)
                  then '' LIMIT 10000'' else [])"
    unfolding apply_rules_def load_optimization_rules_def
    using a4 [of "'' LIMIT 10000''"]
    by (simp add: apply_rule_def add_date_filter_def add_limit_def optimize_select_star_def
        a1 a4' del: contains.simps replace.simps)
  show "''Add date filter to reduce data scanned'' \<in> set (snd (apply_rules q))"
    if "contains ''WHERE'' (upper q) \<and> \<not> contains ''DATE'' (upper q)"
    unfolding apply_rules_def load_optimization_rules_def
    using that
    by (simp add: apply_rule_def del: contains.simps replace.simps)
  show "''Use APPROX functions for better performance'' \<in> set (snd (apply_rules q))"
    if "contains ''COUNT(DISTINCT'' (upper q)"
    unfolding apply_rules_def load_optimization_rules_def
    using that c4 [OF that, of "'' LIMIT 10000''"]
    by (simp add: apply_rule_def add_date_filter_def add_limit_def optimize_select_star_def
        a1 del: contains.simps replace.simps)
qed

text \<open>Two queries in lower case: the second test query of the module, and one with a
  condition and a limit.\<close>

lemma lowercase_sessions:
  "no_uppercase ''select count(distinct user_id) from sessions''"
  "upper ''select count(distinct user_id) from sessions''
     = ''SELECT COUNT(DISTINCT USER_ID) FROM SESSIONS''"
  "contains ''count(distinct'' ''select count(distinct user_id) from sessions''"
  "contains ''SELECT'' ''SELECT COUNT(DISTINCT USER_ID) FROM SESSIONS''"
  "\<not> contains ''LIMIT'' ''SELECT COUNT(DISTINCT USER_ID) FROM SESSIONS''"
  "\<not> contains ''GROUP BY'' ''SELECT COUNT(DISTINCT USER_ID) FROM SESSIONS''"
  "contains ''COUNT(DISTINCT'' ''SELECT COUNT(DISTINCT USER_ID) FROM SESSIONS''"
  by (simp_all add: no_uppercase_def upper_def upper_char_def char_of_def bit_0 bit_Suc)

lemma lowercase_limited:
  "no_uppercase ''select count(distinct user_id) from sessions where day > 3 limit 5''"
  "upper ''select count(distinct user_id) from sessions where day > 3 limit 5''
     = ''SELECT COUNT(DISTINCT USER_ID) FROM SESSIONS WHERE DAY > 3 LIMIT 5''"
  "contains ''where'' ''select count(distinct user_id) from sessions where day > 3 limit 5''"
  "contains ''count(distinct'' ''select count(distinct user_id) from sessions where day > 3 limit 5''"
  "\<not> contains ''DATE'' ''SELECT COUNT(DISTINCT USER_ID) FROM SESSIONS WHERE DAY > 3 LIMIT 5''"
  "contains ''LIMIT'' ''SELECT COUNT(DISTINCT USER_ID) FROM SESSIONS WHERE DAY > 3 LIMIT 5''"
  by (simp_all add: no_uppercase_def upper_def upper_char_def char_of_def bit_0 bit_Suc)

lemma add_query_hints_general:
  "add_query_hints [] ''general'' = ''-- @cache_ttl=3600'' @ [newline]"
  by (simp add: add_query_hints_def Let_def cache_ttl_for_def CACHE_PATTERNS_def
      str_nat_values del: str_nat.simps)

text \<open>
  C9, as stated: for a query in lower case the rule is reported and the text is left
  unchanged apart from the hint comments in front. For the module's second test query in
  lower case, the rule of the approximate functions is reported and has replaced nothing,
  but the text is not the hint comment followed by the query: the rule \<open>add_limit\<close>, whose
  check held too, has appended a \<open>LIMIT\<close>.
\<close>

theorem lowercase_query_counterexample:
  "''Use APPROX functions for better performance''
     \<in> set (snd (optimize_query ''select count(distinct user_id) from sessions'' ''general''))
   \<and> fst (optimize_query ''select count(distinct user_id) from sessions'' ''general'')
       = ''-- @cache_ttl=3600'' @ [newline]
         @ ''select count(distinct user_id) from sessions LIMIT 10000''
   \<and> fst (optimize_query ''select count(distinct user_id) from sessions'' ''general'')
       \<noteq> add_query_hints [] ''general'' @ ''select count(distinct user_id) from sessions''"
proof -
  note r = apply_rules_lowercase [OF lowercase_sessions(1)]
  have "''Use APPROX functions for better performance''
          \<in> set (snd (apply_rules ''select count(distinct user_id) from sessions''))"
    by (rule r(3)) (simp only: lowercase_sessions)
  moreover have "fst (apply_rules ''select count(distinct user_id) from sessions'')
      = ''select count(distinct user_id) from sessions LIMIT 10000''"
    unfolding r(1) by (simp only: lowercase_sessions) simp
  ultimately show ?thesis
    unfolding optimize_query_fst optimize_query_snd add_query_hints_general
    by (simp add: newline_def)
qed

text \<open>
  C9, amended. For a query without upper-case letters: when it contains \<open>where\<close> and the
  check of the date filter finds no \<open>DATE\<close> in its upper-case form, the date filter is in
  the list of applied optimizations; when it contains \<open>count(distinct\<close>, the approximate
  functions are in the list; and the text returned is the hint comments, the query
  unchanged, and after it \<open> LIMIT 10000\<close> exactly when the check of \<open>add_limit\<close> holds
  (the upper-case form contains \<open>SELECT\<close>, no \<open>LIMIT\<close> and no \<open>GROUP BY\<close>). So the
  replacements of the two reported rules change nothing, and the text is unchanged apart
  from the hint comments when the check of \<open>add_limit\<close> fails.
\<close>

theorem lowercase_query_reported_not_rewritten:
  assumes "no_uppercase q"
  shows "(contains ''where'' q \<and> \<not> contains ''DATE'' (upper q) \<longrightarrow>
            ''Add date filter to reduce data scanned'' \<in> set (snd (optimize_query q t)))
       \<and> (contains ''count(distinct'' q \<longrightarrow>
            ''Use APPROX functions for better performance'' \<in> set (snd (optimize_query q t)))
       \<and> fst (optimize_query q t)
           = add_query_hints [] t @ q
             @ (if contains ''SELECT'' (upper q) \<and> \<not> contains ''LIMIT'' (upper q)
                   \<and> \<not> contains ''GROUP BY'' (upper q)
                then '' LIMIT 10000'' else [])"
proof -
  note r = apply_rules_lowercase [OF assms]
  have "contains ''WHERE'' (upper q)" if "contains ''where'' q"
    using contains_upper [OF that] by (simp only: upper_keywords)
  moreover have "contains ''COUNT(DISTINCT'' (upper q)" if "contains ''count(distinct'' q"
    using contains_upper [OF that] by (simp only: upper_keywords)
  ultimately show ?thesis
    unfolding optimize_query_fst optimize_query_snd r(1)
    using r(2) r(3) by blast
qed

theorem lowercase_query_reported_not_rewritten_witness:
  "no_uppercase ''select count(distinct user_id) from sessions where day > 3 limit 5''
   \<and> ''Add date filter to reduce data scanned''
       \<in> set (snd (optimize_query ''select count(distinct user_id) from sessions where day > 3 limit 5''
                     ''general''))
   \<and> ''Use APPROX functions for better performance''
       \<in> set (snd (optimize_query ''select count(distinct user_id) from sessions where day > 3 limit 5''
                     ''general''))
   \<and> fst (optimize_query ''select count(distinct user_id) from sessions where day > 3 limit 5''
            ''general'')
       = add_query_hints [] ''general''
         @ ''select count(distinct user_id) from sessions where day > 3 limit 5''"
proof -
  have h: "no_uppercase ''select count(distinct user_id) from sessions where day > 3 limit 5''"
    by (rule lowercase_limited)
  have w: "contains ''where'' ''select count(distinct user_id) from sessions where day > 3 limit 5''
           \<and> \<not> contains ''DATE''
                 (upper ''select count(distinct user_id) from sessions where day > 3 limit 5'')"
    by (simp only: lowercase_limited simp_thms)
  have c: "contains ''count(distinct''
             ''select count(distinct user_id) from sessions where day > 3 limit 5''"
    by (rule lowercase_limited)
  have l: "\<not> (contains ''SELECT''
                (upper ''select count(distinct user_id) from sessions where day > 3 limit 5'')
              \<and> \<not> contains ''LIMIT''
                    (upper ''select count(distinct user_id) from sessions where day > 3 limit 5'')
              \<and> \<not> contains ''GROUP BY''
                    (upper ''select count(distinct user_id) from sessions where day > 3 limit 5''))"
    by (simp only: lowercase_limited simp_thms)
  from lowercase_query_reported_not_rewritten [OF h, where t = "''general''"] w c l
  show ?thesis using h by (simp only: if_False append_Nil2 simp_thms)
qed

end
